theory Spec2Isabelle
  imports Main "HOL-Library.Word"
begin

unbundle bit_operations_syntax

section \<open>Vulkan and allocator types used by \<open>framework/core/image.cpp\<close>\<close>

text \<open>
  Opaque handles and pointers are natural numbers; \<open>VK_NULL_HANDLE\<close> and
  \<open>nullptr\<close> are 0. The \<open>uint32_t\<close> quantities of the source are 32-bit words.
\<close>

type_synonym VkResult = int
type_synonym VkImage = nat
type_synonym VmaAllocation = nat
type_synonym ptr = nat
type_synonym addr = nat
type_synonym ImageView = nat
type_synonym VkFormat = int
type_synonym VmaMemoryUsage = int
type_synonym VkImageTiling = int
type_synonym VkImageUsageFlags = "32 word"
type_synonym VkMemoryPropertyFlags = "32 word"
type_synonym VkSampleCountFlagBits = "32 word"

definition VK_SUCCESS :: VkResult where
  "VK_SUCCESS = 0"

definition VK_NULL_HANDLE :: nat where
  "VK_NULL_HANDLE = 0"

definition nullptr :: ptr where
  "nullptr = 0"

definition VK_IMAGE_TILING_OPTIMAL :: VkImageTiling where
  "VK_IMAGE_TILING_OPTIMAL = 0"

definition VK_IMAGE_TILING_LINEAR :: VkImageTiling where
  "VK_IMAGE_TILING_LINEAR = 1"

definition VK_SAMPLE_COUNT_1_BIT :: VkSampleCountFlagBits where
  "VK_SAMPLE_COUNT_1_BIT = 0x1"

definition VK_IMAGE_USAGE_TRANSIENT_ATTACHMENT_BIT :: VkImageUsageFlags where
  "VK_IMAGE_USAGE_TRANSIENT_ATTACHMENT_BIT = 0x40"

definition VK_MEMORY_PROPERTY_LAZILY_ALLOCATED_BIT :: VkMemoryPropertyFlags where
  "VK_MEMORY_PROPERTY_LAZILY_ALLOCATED_BIT = 0x10"

datatype VkImageType = VK_IMAGE_TYPE_1D | VK_IMAGE_TYPE_2D | VK_IMAGE_TYPE_3D

record VkExtent3D =
  width :: "32 word"
  height :: "32 word"
  depth :: "32 word"

text \<open>
  What the source throws or aborts with: \<open>std::runtime_error\<close> (the spec's
  \<open>InvalidExtent\<close>), a failed \<open>assert\<close> (the spec's \<open>PreconditionViolated\<close>),
  \<open>VulkanException\<close> with the allocator's status (the spec's \<open>AllocationFailed\<close>),
  and a failed \<open>VK_CHECK\<close> (the spec's \<open>MapFailed\<close>).
\<close>

datatype error =
    runtime_error string
  | assertion_failed string
  | VulkanException VkResult string
  | VK_CHECK_failed VkResult

section \<open>The type-inference helper\<close>

text \<open>
  \<open>find_image_type\<close>: \<open>dim_num\<close> is a \<open>uint32_t\<close> incremented once per present
  dimension; the \<open>switch\<close> maps 1, 2, 3 to the image types and throws otherwise.
\<close>

definition find_image_type :: "VkExtent3D \<Rightarrow> error + VkImageType" where
  "find_image_type extent =
     (let dim_num = (0 :: 32 word);
          dim_num = (if width extent \<ge> 1 then dim_num + 1 else dim_num);
          dim_num = (if height extent \<ge> 1 then dim_num + 1 else dim_num);
          dim_num = (if depth extent > 1 then dim_num + 1 else dim_num)
      in if dim_num = 1 then Inr VK_IMAGE_TYPE_1D
         else if dim_num = 2 then Inr VK_IMAGE_TYPE_2D
         else if dim_num = 3 then Inr VK_IMAGE_TYPE_3D
         else Inl (runtime_error ''No image type found.''))"

text \<open>The number of present dimensions, as a natural number.\<close>

definition present_dims :: "VkExtent3D \<Rightarrow> nat" where
  "present_dims e =
     (if 1 \<le> width e then 1 else 0) + (if 1 \<le> height e then 1 else 0) +
     (if 1 < depth e then 1 else 0)"

section \<open>Structures passed to the allocator, and the record of external calls\<close>

text \<open>
  Only the fields that the constructor writes are kept; every other field of the two
  create-info structures stays at its zero initial value. The fields \<open>format\<close>,
  \<open>extent\<close>, \<open>tiling\<close> and \<open>usage\<close> carry a prefix, since the image class
  has members of the same names.
\<close>

record VkImageSubresource =
  aspectMask :: "32 word"
  mipLevel :: "32 word"
  arrayLayer :: "32 word"

record VkImageCreateInfo =
  imageType :: VkImageType
  info_format :: VkFormat
  info_extent :: VkExtent3D
  mipLevels :: "32 word"
  arrayLayers :: "32 word"
  samples :: VkSampleCountFlagBits
  info_tiling :: VkImageTiling
  info_usage :: VkImageUsageFlags

record VmaAllocationCreateInfo =
  mem_usage :: VmaMemoryUsage
  preferredFlags :: VkMemoryPropertyFlags

text \<open>
  Every call that leaves the image class is recorded, in order: the four allocator
  entry points, the rebinding of a view, and the warning of \<open>LOGW\<close>.
\<close>

datatype call =
    is_CreateImage: CreateImage VkImageCreateInfo VmaAllocationCreateInfo
  | is_DestroyImage: DestroyImage VkImage VmaAllocation
  | is_MapMemory: MapMemory VmaAllocation
  | is_UnmapMemory: UnmapMemory VmaAllocation
  | is_SetImage: SetImage ImageView addr
  | is_Warning: Warning string

text \<open>
  The allocator is an external library. It is represented by what it answers: the
  status, handle and allocation of \<open>vmaCreateImage\<close> and the status and pointer of
  \<open>vmaMapMemory\<close>, each as a function of the calls made so far and of the arguments,
  so that an allocator with internal state is covered.
\<close>

record VmaAllocator =
  vmaCreateImage :: "call list \<Rightarrow> VkImageCreateInfo \<Rightarrow> VmaAllocationCreateInfo
                       \<Rightarrow> VkResult \<times> VkImage \<times> VmaAllocation"
  vmaMapMemory :: "call list \<Rightarrow> VmaAllocation \<Rightarrow> VkResult \<times> ptr"

record Device =
  get_memory_allocator :: VmaAllocator

text \<open>
  The image class. The view set \<open>std::unordered_set<ImageView *>\<close> is a list
  without duplicates, in the order in which a range-for visits it.
\<close>

record Image =
  device :: Device
  handle :: VkImage
  memory :: VmaAllocation
  type :: VkImageType
  extent :: VkExtent3D
  format :: VkFormat
  sample_count :: VkSampleCountFlagBits
  usage :: VkImageUsageFlags
  tiling :: VkImageTiling
  subresource :: VkImageSubresource
  mapped_data :: ptr
  mapped :: bool
  views :: "ImageView list"

text \<open>
  The state outside the image objects: the calls made so far and, for each view, the
  address of the image it points to.
\<close>

record world =
  calls :: "call list"
  view_image :: "ImageView \<Rightarrow> addr"

definition emit :: "call \<Rightarrow> world \<Rightarrow> world" where
  "emit c w = w\<lparr>calls := calls w @ [c]\<rparr>"

section \<open>Construction\<close>

text \<open>
  Modelled from the spec: the default member initialisers of the image class stand in
  \<open>image.h\<close>, which is not among the sources. By section 3 of the spec a handle and an
  allocation that were never set are the null sentinel, and an image that is not mapped
  has a null mapped pointer and a false mapped flag. The view set is an
  \<open>std::unordered_set\<close> (the return type of \<open>get_views\<close>), so it starts empty. The
  members that every constructor writes, and the tiling and aspect mask on which the
  spec is silent, start at zero.
\<close>

definition Image_members :: "Device \<Rightarrow> Image" where
  "Image_members dev =
     \<lparr>device = dev, handle = VK_NULL_HANDLE, memory = VK_NULL_HANDLE,
      type = VK_IMAGE_TYPE_1D, extent = \<lparr>width = 0, height = 0, depth = 0\<rparr>,
      format = 0, sample_count = 0, usage = 0, tiling = VK_IMAGE_TILING_OPTIMAL,
      subresource = \<lparr>aspectMask = 0, mipLevel = 0, arrayLayer = 0\<rparr>,
      mapped_data = nullptr, mapped = False, views = []\<rparr>"

text \<open>Lines 96 to 105 of the owning constructor: the image create-info.\<close>

definition image_info_of ::
  "VkImageType \<Rightarrow> VkFormat \<Rightarrow> VkExtent3D \<Rightarrow> 32 word \<Rightarrow> 32 word \<Rightarrow> VkSampleCountFlagBits
     \<Rightarrow> VkImageTiling \<Rightarrow> VkImageUsageFlags \<Rightarrow> VkImageCreateInfo" where
  "image_info_of ty fmt ext mip_levels array_layers sc til image_usage =
     \<lparr>imageType = ty, info_format = fmt, info_extent = ext, mipLevels = mip_levels,
      arrayLayers = array_layers, samples = sc, info_tiling = til,
      info_usage = image_usage\<rparr>"

text \<open>
  Lines 107 to 113: \<open>memory_info\<close> starts zeroed, takes the memory usage, and takes the
  lazily-allocated preference when the usage has the transient-attachment bit.
\<close>

definition memory_info_of :: "VkImageUsageFlags \<Rightarrow> VmaMemoryUsage \<Rightarrow> VmaAllocationCreateInfo" where
  "memory_info_of image_usage memory_usage =
     (let memory_info = \<lparr>mem_usage = 0, preferredFlags = 0\<rparr>;
          memory_info = memory_info\<lparr>mem_usage := memory_usage\<rparr>
      in if image_usage AND VK_IMAGE_USAGE_TRANSIENT_ATTACHMENT_BIT \<noteq> 0
         then memory_info\<lparr>preferredFlags := VK_MEMORY_PROPERTY_LAZILY_ALLOCATED_BIT\<rparr>
         else memory_info)"

text \<open>
  The owning constructor. The member initialisers run first, so a throwing
  \<open>find_image_type\<close> comes before the two assertions; the assertions are taken as
  compiled in. The call to the allocator is recorded whether it succeeds or not.
\<close>

definition Image_owning ::
  "Device \<Rightarrow> VkExtent3D \<Rightarrow> VkFormat \<Rightarrow> VkImageUsageFlags \<Rightarrow> VmaMemoryUsage
     \<Rightarrow> VkSampleCountFlagBits \<Rightarrow> 32 word \<Rightarrow> 32 word \<Rightarrow> VkImageTiling \<Rightarrow> world
     \<Rightarrow> (error + Image) \<times> world" where
  "Image_owning dev ext fmt image_usage memory_usage sc mip_levels array_layers til w =
     (case find_image_type ext of
        Inl e \<Rightarrow> (Inl e, w)
      | Inr ty \<Rightarrow>
          if \<not> mip_levels > 0
          then (Inl (assertion_failed ''Image should have at least one level''), w)
          else if \<not> array_layers > 0
          then (Inl (assertion_failed ''Image should have at least one layer''), w)
          else
            let this = (Image_members dev)
                  \<lparr>type := ty, extent := ext, format := fmt, sample_count := sc,
                   usage := image_usage, tiling := til\<rparr>;
                this = this\<lparr>subresource :=
                  (subresource this)\<lparr>mipLevel := mip_levels, arrayLayer := array_layers\<rparr>\<rparr>;
                image_info =
                  image_info_of (type this) fmt ext mip_levels array_layers sc til image_usage;
                memory_info = memory_info_of image_usage memory_usage;
                (result, h, m) =
                  vmaCreateImage (get_memory_allocator dev) (calls w) image_info memory_info;
                w = emit (CreateImage image_info memory_info) w
            in if result \<noteq> VK_SUCCESS
               then (Inl (VulkanException result ''Cannot create Image''), w)
               else (Inr (this\<lparr>handle := h, memory := m\<rparr>), w))"

text \<open>The adopting constructor: no allocator call, the allocation stays as initialised.\<close>

definition Image_adopted ::
  "Device \<Rightarrow> VkImage \<Rightarrow> VkExtent3D \<Rightarrow> VkFormat \<Rightarrow> VkImageUsageFlags \<Rightarrow> world
     \<Rightarrow> (error + Image) \<times> world" where
  "Image_adopted dev h ext fmt image_usage w =
     (case find_image_type ext of
        Inl e \<Rightarrow> (Inl e, w)
      | Inr ty \<Rightarrow>
          let this = (Image_members dev)
                \<lparr>handle := h, type := ty, extent := ext, format := fmt,
                 sample_count := VK_SAMPLE_COUNT_1_BIT, usage := image_usage\<rparr>;
              this = this\<lparr>subresource :=
                (subresource this)\<lparr>mipLevel := 1, arrayLayer := 1\<rparr>\<rparr>
          in (Inr this, w))"

section \<open>Map, unmap, destruction, move\<close>

text \<open>
  Modelled from the spec: the macro \<open>VK_CHECK\<close> is not among the sources; by section
  4.4 of the spec a failure to map is fatal and surfaced through the error channel, so
  a status other than success ends the operation with an error that carries it.
\<close>

definition VK_CHECK :: "VkResult \<Rightarrow> error option" where
  "VK_CHECK err = (if err \<noteq> VK_SUCCESS then Some (VK_CHECK_failed err) else None)"

text \<open>
  \<open>map\<close>: the allocator is asked only when the mapped pointer is null, after the
  warning for a tiling that is not linear; the call is recorded whatever its status.
\<close>

definition Image_map :: "Image \<Rightarrow> world \<Rightarrow> (error + ptr \<times> Image) \<times> world" where
  "Image_map this w =
     (if mapped_data this = nullptr
      then
        let w = (if tiling this \<noteq> VK_IMAGE_TILING_LINEAR
                 then emit (Warning ''Mapping image memory that is not linear'') w else w);
            (result, p) =
               vmaMapMemory (get_memory_allocator (device this)) (calls w) (memory this);
            w = emit (MapMemory (memory this)) w
        in case VK_CHECK result of
             Some e \<Rightarrow> (Inl e, w)
           | None \<Rightarrow>
               let this = this\<lparr>mapped_data := p\<rparr>;
                   this = this\<lparr>mapped := True\<rparr>
               in (Inr (mapped_data this, this), w)
      else (Inr (mapped_data this, this), w))"

definition Image_unmap :: "Image \<Rightarrow> world \<Rightarrow> Image \<times> world" where
  "Image_unmap this w =
     (if mapped this
      then (this\<lparr>mapped_data := nullptr, mapped := False\<rparr>, emit (UnmapMemory (memory this)) w)
      else (this, w))"

text \<open>The destructor; the object as the destructor body leaves it is returned too.\<close>

definition Image_destructor :: "Image \<Rightarrow> world \<Rightarrow> Image \<times> world" where
  "Image_destructor this w =
     (if handle this \<noteq> VK_NULL_HANDLE \<and> memory this \<noteq> VK_NULL_HANDLE
      then
        let (this, w) = Image_unmap this w
        in (this, emit (DestroyImage (handle this) (memory this)) w)
      else (this, w))"

text \<open>
  Modelled from the spec: \<open>ImageView::set_image\<close> is defined in \<open>image_view.cpp\<close>,
  which is not among the sources; by section 6.3 of the spec it rebinds the view to
  the image it is given.
\<close>

definition set_image :: "ImageView \<Rightarrow> addr \<Rightarrow> world \<Rightarrow> world" where
  "set_image view a w = emit (SetImage view a) (w\<lparr>view_image := (view_image w)(view := a)\<rparr>)"

text \<open>
  Modelled from the spec: a view registers itself through \<open>get_views\<close> in its own
  constructor, in \<open>image_view.cpp\<close>, which is not among the sources; by section 4.5
  of the spec registering twice is the same as once, and by invariant 7 the view then
  takes this image as its owning image.
\<close>

definition register_view :: "ImageView \<Rightarrow> addr \<Rightarrow> Image \<Rightarrow> world \<Rightarrow> Image \<times> world" where
  "register_view view a this w =
     ((if view \<in> set (views this) then this else this\<lparr>views := views this @ [view]\<rparr>),
      w\<lparr>view_image := (view_image w)(view := a)\<rparr>)"

text \<open>
  The move constructor, building the object at address \<open>this_addr\<close> from \<open>other\<close>.
  The initialiser list names every member except \<open>views\<close>, which is therefore default
  constructed; the body then nulls four members of \<open>other\<close> and runs the loop over
  the \<open>views\<close> member of the new object. The result is the new object, \<open>other\<close> as
  it is left, and the world.
\<close>

definition Image_move :: "addr \<Rightarrow> Image \<Rightarrow> world \<Rightarrow> Image \<times> Image \<times> world" where
  "Image_move this_addr other w =
     (let this = (Image_members (device other))
            \<lparr>handle := handle other, memory := memory other, type := type other,
             extent := extent other, format := format other,
             sample_count := sample_count other, usage := usage other,
             tiling := tiling other, subresource := subresource other,
             mapped_data := mapped_data other, mapped := mapped other\<rparr>;
          other = other\<lparr>handle := VK_NULL_HANDLE, memory := VK_NULL_HANDLE,
                        mapped_data := nullptr, mapped := False\<rparr>;
          w = foldl (\<lambda>w view. set_image view this_addr w) w (views this)
      in (this, other, w))"

section \<open>Sequences of operations on one image\<close>

text \<open>
  The operations a caller has on a constructed image. A move has two outcomes to
  follow: the new object (\<open>Move_to\<close>, with its address) and the object moved from
  (\<open>Moved_from\<close>). A failed map ends the sequence.
\<close>

datatype op = Map | Unmap | Move_to addr | Moved_from addr | Destroy

fun exec :: "op \<Rightarrow> Image \<times> world \<Rightarrow> error + Image \<times> world" where
  "exec Map (im, w) =
     (case Image_map im w of
        (Inl e, w') \<Rightarrow> Inl e
      | (Inr (p, im'), w') \<Rightarrow> Inr (im', w'))"
| "exec Unmap (im, w) = Inr (Image_unmap im w)"
| "exec (Move_to a) (im, w) = (case Image_move a im w of (new, old, w') \<Rightarrow> Inr (new, w'))"
| "exec (Moved_from a) (im, w) = (case Image_move a im w of (new, old, w') \<Rightarrow> Inr (old, w'))"
| "exec Destroy (im, w) = Inr (Image_destructor im w)"

fun run :: "op list \<Rightarrow> Image \<times> world \<Rightarrow> error + Image \<times> world" where
  "run [] s = Inr s"
| "run (x # xs) s = (case exec x s of Inl e \<Rightarrow> Inl e | Inr s' \<Rightarrow> run xs s')"

text \<open>\<open>n\<close> calls of \<open>map\<close> in a row, with the pointers they return.\<close>

fun map_n :: "nat \<Rightarrow> Image \<Rightarrow> world \<Rightarrow> (error + ptr list \<times> Image) \<times> world" where
  "map_n 0 im w = (Inr ([], im), w)"
| "map_n (Suc n) im w =
     (case Image_map im w of
        (Inl e, w') \<Rightarrow> (Inl e, w')
      | (Inr (p, im'), w') \<Rightarrow>
          (case map_n n im' w' of
             (Inl e, w'') \<Rightarrow> (Inl e, w'')
           | (Inr (ps, im''), w'') \<Rightarrow> (Inr (p # ps, im''), w'')))"

section \<open>Example allocators and devices\<close>

text \<open>
  An allocator that hands out handle 7 with allocation 9 and maps any allocation but
  the null one at pointer 4096, one that refuses every request with
  \<open>VK_ERROR_OUT_OF_DEVICE_MEMORY\<close> and \<open>VK_ERROR_MEMORY_MAP_FAILED\<close>, and one that
  reports success for every mapping request, the null allocation included.
\<close>

definition strict_allocator :: VmaAllocator where
  "strict_allocator =
     \<lparr>vmaCreateImage = (\<lambda>tr info minfo. (VK_SUCCESS, 7, 9)),
      vmaMapMemory = (\<lambda>tr m. if m = VK_NULL_HANDLE then (-5, nullptr) else (VK_SUCCESS, 4096))\<rparr>"


definition lenient_allocator :: VmaAllocator where
  "lenient_allocator =
     \<lparr>vmaCreateImage = (\<lambda>tr info minfo. (VK_SUCCESS, 7, 9)),
      vmaMapMemory = (\<lambda>tr m. (VK_SUCCESS, 4096))\<rparr>"

definition strict_device :: Device where
  "strict_device = \<lparr>get_memory_allocator = strict_allocator\<rparr>"


definition lenient_device :: Device where
  "lenient_device = \<lparr>get_memory_allocator = lenient_allocator\<rparr>"

definition world0 :: world where
  "world0 = \<lparr>calls = [], view_image = (\<lambda>v. 0)\<rparr>"

definition extent_2d :: VkExtent3D where
  "extent_2d = \<lparr>width = 1024, height = 1024, depth = 1\<rparr>"

definition extent_0 :: VkExtent3D where
  "extent_0 = \<lparr>width = 0, height = 0, depth = 0\<rparr>"

text \<open>
  The condition on the allocator under which a borrowed image cannot be mapped: it never
  reports success for a request to map the null allocation.
\<close>

definition refuses_null_map :: "Device \<Rightarrow> bool" where
  "refuses_null_map dev \<longleftrightarrow>
     (\<forall>tr. fst (vmaMapMemory (get_memory_allocator dev) tr VK_NULL_HANDLE) \<noteq> VK_SUCCESS)"

text \<open>
  Scenario S6 of the spec up to the move: an owning 2D image (format 37 is
  \<open>R8G8B8A8_UNORM\<close>, usage \<open>0x10\<close> is colour attachment, memory usage 1 is GPU only)
  living at address 100, with the views 1 and 2 registered.
\<close>

definition S6_state :: "Image \<times> world" where
  "S6_state =
     (case Image_owning strict_device extent_2d 37 0x10 1 1 1 1 VK_IMAGE_TILING_OPTIMAL world0 of
        (Inl e, w) \<Rightarrow> (Image_members strict_device, w)
      | (Inr im, w) \<Rightarrow>
          (case register_view 1 100 im w of (im, w) \<Rightarrow> register_view 2 100 im w))"

text \<open>
  Scenario S3 of the spec with a lenient allocator: the swapchain handle 5 adopted
  (format 44 is \<open>B8G8R8A8_UNORM\<close>).
\<close>

definition S3_state :: "(error + Image) \<times> world" where
  "S3_state =
     Image_adopted lenient_device 5 \<lparr>width = 1920, height = 1080, depth = 1\<rparr> 44 0x10 world0"

definition S3_image :: Image where
  "S3_image =
     \<lparr>device = lenient_device, handle = 5, memory = VK_NULL_HANDLE, type = VK_IMAGE_TYPE_2D,
      extent = \<lparr>width = 1920, height = 1080, depth = 1\<rparr>, format = 44,
      sample_count = VK_SAMPLE_COUNT_1_BIT, usage = 0x10, tiling = VK_IMAGE_TILING_OPTIMAL,
      subresource = \<lparr>aspectMask = 0, mipLevel = 1, arrayLayer = 1\<rparr>,
      mapped_data = nullptr, mapped = False, views = []\<rparr>"

text \<open>Invariant 4 of the spec's data model: a mapped image has an allocation.\<close>

definition inv4 :: "Image \<Rightarrow> bool" where
  "inv4 im \<longleftrightarrow> (mapped im \<longrightarrow> memory im \<noteq> VK_NULL_HANDLE)"

definition is_alloc_or_release :: "call \<Rightarrow> bool" where
  "is_alloc_or_release c \<longleftrightarrow> is_CreateImage c \<or> is_DestroyImage c"

text \<open>
  Scenario S1 of the spec as the strict allocator answers it: the owning image with
  handle 7 and allocation 9.
\<close>

definition S1_image :: Image where
  "S1_image =
     \<lparr>device = strict_device, handle = 7, memory = 9, type = VK_IMAGE_TYPE_2D,
      extent = extent_2d, format = 37, sample_count = 1, usage = 0x10,
      tiling = VK_IMAGE_TILING_OPTIMAL,
      subresource = \<lparr>aspectMask = 0, mipLevel = 1, arrayLayer = 1\<rparr>,
      mapped_data = nullptr, mapped = False, views = []\<rparr>"

text \<open>
  An allocator that answers every mapping request with success and a null pointer, and
  the owning image of scenario S1 as built on its device.
\<close>

definition null_pointer_allocator :: VmaAllocator where
  "null_pointer_allocator =
     \<lparr>vmaCreateImage = (\<lambda>tr info minfo. (VK_SUCCESS, 7, 9)),
      vmaMapMemory = (\<lambda>tr m. (VK_SUCCESS, nullptr))\<rparr>"

definition null_pointer_device :: Device where
  "null_pointer_device = \<lparr>get_memory_allocator = null_pointer_allocator\<rparr>"

definition S1_null_image :: Image where
  "S1_null_image =
     \<lparr>device = null_pointer_device, handle = 7, memory = 9, type = VK_IMAGE_TYPE_2D,
      extent = extent_2d, format = 37, sample_count = 1, usage = 0x10,
      tiling = VK_IMAGE_TILING_OPTIMAL,
      subresource = \<lparr>aspectMask = 0, mipLevel = 1, arrayLayer = 1\<rparr>,
      mapped_data = nullptr, mapped = False, views = []\<rparr>"

section \<open>Properties of the type-inference helper\<close>

lemma find_image_type_count:
  "find_image_type e =
     (if present_dims e = 1 then Inr VK_IMAGE_TYPE_1D
      else if present_dims e = 2 then Inr VK_IMAGE_TYPE_2D
      else if present_dims e = 3 then Inr VK_IMAGE_TYPE_3D
      else Inl (runtime_error ''No image type found.''))"
  by (simp add: find_image_type_def present_dims_def Let_def)

lemma find_image_type_1D:
  "1 \<le> W \<Longrightarrow> find_image_type \<lparr>width = W, height = 0, depth = 0\<rparr> = Inr VK_IMAGE_TYPE_1D"
  by (simp add: find_image_type_def Let_def)

lemma find_image_type_2D:
  "1 \<le> W \<Longrightarrow> 1 \<le> H \<Longrightarrow>
   find_image_type \<lparr>width = W, height = H, depth = 1\<rparr> = Inr VK_IMAGE_TYPE_2D"
  by (simp add: find_image_type_def Let_def)

lemma find_image_type_3D:
  "1 \<le> W \<Longrightarrow> 1 \<le> H \<Longrightarrow> 1 < D \<Longrightarrow>
   find_image_type \<lparr>width = W, height = H, depth = D\<rparr> = Inr VK_IMAGE_TYPE_3D"
  by (simp add: find_image_type_def Let_def)

lemma find_image_type_zero:
  "find_image_type \<lparr>width = 0, height = 0, depth = 0\<rparr> = Inl (runtime_error ''No image type found.'')"
  by (simp add: find_image_type_def Let_def)

text \<open>
  C5. For every extent, the helper counts a dimension for width at least 1, one for
  height at least 1 and one for depth greater than 1 (depth 1 adds nothing), maps the
  count 1, 2, 3 to 1D, 2D, 3D and fails for any other count. In particular (W,0,0)
  with W at least 1 is 1D, (W,H,1) with W and H at least 1 is 2D, (W,H,D) with W and H
  at least 1 and D above 1 is 3D, and (0,0,0) fails.
\<close>

theorem find_image_type_spec:
  "find_image_type e =
     (if present_dims e = 1 then Inr VK_IMAGE_TYPE_1D
      else if present_dims e = 2 then Inr VK_IMAGE_TYPE_2D
      else if present_dims e = 3 then Inr VK_IMAGE_TYPE_3D
      else Inl (runtime_error ''No image type found.''))
   \<and> present_dims e =
       (if 1 \<le> width e then 1 else 0) + (if 1 \<le> height e then 1 else 0) +
       (if 1 < depth e then 1 else 0)
   \<and> (1 \<le> W \<longrightarrow>
        find_image_type \<lparr>width = W, height = 0, depth = 0\<rparr> = Inr VK_IMAGE_TYPE_1D)
   \<and> (1 \<le> W \<and> 1 \<le> H \<longrightarrow>
        find_image_type \<lparr>width = W, height = H, depth = 1\<rparr> = Inr VK_IMAGE_TYPE_2D)
   \<and> (1 \<le> W \<and> 1 \<le> H \<and> 1 < D \<longrightarrow>
        find_image_type \<lparr>width = W, height = H, depth = D\<rparr> = Inr VK_IMAGE_TYPE_3D)
   \<and> find_image_type \<lparr>width = 0, height = 0, depth = 0\<rparr>
        = Inl (runtime_error ''No image type found.'')"
  using find_image_type_count [of e] find_image_type_1D [of W]
    find_image_type_2D [of W H] find_image_type_3D [of W H D] find_image_type_zero
  by (simp add: present_dims_def)

theorem find_image_type_spec_witness:
  "(1 :: 32 word) \<le> 1024 \<and> (1 :: 32 word) \<le> 768 \<and> (1 :: 32 word) < 4
   \<and> find_image_type \<lparr>width = 1024, height = 0, depth = 0\<rparr> = Inr VK_IMAGE_TYPE_1D
   \<and> find_image_type \<lparr>width = 1024, height = 768, depth = 1\<rparr> = Inr VK_IMAGE_TYPE_2D
   \<and> find_image_type \<lparr>width = 1024, height = 768, depth = 4\<rparr> = Inr VK_IMAGE_TYPE_3D"
  using find_image_type_spec [of "\<lparr>width = 1024, height = 768, depth = 4\<rparr>" 1024 768 4]
  by simp

section \<open>Facts about construction\<close>

lemma find_image_type_Inl:
  "find_image_type ext = Inl e \<longleftrightarrow>
     (present_dims ext \<noteq> 1 \<and> present_dims ext \<noteq> 2 \<and> present_dims ext \<noteq> 3 \<and>
      e = runtime_error ''No image type found.'')"
  by (auto simp: find_image_type_count)

lemma Image_owning_bad_extent:
  "find_image_type ext = Inl e \<Longrightarrow>
   Image_owning dev ext fmt iu mu sc mips layers til w = (Inl e, w)"
  by (simp add: Image_owning_def)



lemma Image_owning_success:
  "find_image_type ext = Inr ty \<Longrightarrow> 1 \<le> mips \<Longrightarrow> 1 \<le> layers \<Longrightarrow>
   vmaCreateImage (get_memory_allocator dev) (calls w)
     (image_info_of ty fmt ext mips layers sc til iu) (memory_info_of iu mu) = (VK_SUCCESS, h, m) \<Longrightarrow>
   \<exists>im. fst (Image_owning dev ext fmt iu mu sc mips layers til w) = Inr im \<and> handle im = h \<and> memory im = m"
  by (simp add: Image_owning_def Let_def Image_members_def word_le_def word_less_def)


lemma memory_info_lazy_iff:
  "preferredFlags (memory_info_of iu mu) AND VK_MEMORY_PROPERTY_LAZILY_ALLOCATED_BIT \<noteq> 0
     \<longleftrightarrow> iu AND VK_IMAGE_USAGE_TRANSIENT_ATTACHMENT_BIT \<noteq> 0"
  by (simp add: memory_info_of_def Let_def VK_MEMORY_PROPERTY_LAZILY_ALLOCATED_BIT_def)

lemma memory_info_not_transient:
  "iu AND VK_IMAGE_USAGE_TRANSIENT_ATTACHMENT_BIT = 0 \<Longrightarrow>
   preferredFlags (memory_info_of iu mu) = 0"
  by (simp add: memory_info_of_def Let_def)

lemma memory_info_usage: "mem_usage (memory_info_of iu mu) = mu"
  by (simp add: memory_info_of_def Let_def)

lemma Image_owning_calls:
  "find_image_type ext = Inr ty \<Longrightarrow> 0 < mips \<Longrightarrow> 0 < layers \<Longrightarrow>
   calls (snd (Image_owning dev ext fmt iu mu sc mips layers til w))
     = calls w @ [CreateImage (image_info_of ty fmt ext mips layers sc til iu) (memory_info_of iu mu)]"
  by (simp add: Image_owning_def Let_def Image_members_def emit_def split: prod.splits)

lemma Image_adopted_world: "snd (Image_adopted dev h ext fmt iu w) = w"
  by (simp add: Image_adopted_def Let_def split: sum.splits)

lemma Image_adopted_fields:
  "Image_adopted dev h ext fmt iu w = (Inr im, w') \<Longrightarrow>
   handle im = h \<and> memory im = VK_NULL_HANDLE \<and> sample_count im = VK_SAMPLE_COUNT_1_BIT
   \<and> mipLevel (subresource im) = 1 \<and> arrayLayer (subresource im) = 1
   \<and> mapped_data im = nullptr \<and> \<not> mapped im \<and> device im = dev"
  by (auto simp: Image_adopted_def Let_def Image_members_def split: sum.splits)

lemma Image_destructor_null:
  "handle im = VK_NULL_HANDLE \<or> memory im = VK_NULL_HANDLE \<Longrightarrow> Image_destructor im w = (im, w)"
  by (auto simp: Image_destructor_def)

lemma adopted_type_inferred:
  "find_image_type ext = Inr ty \<Longrightarrow>
   \<exists>im. Image_adopted dev h ext fmt iu w = (Inr im, w) \<and> type im = ty"
  by (simp add: Image_adopted_def Let_def Image_members_def)

lemma Image_adopted_bad_extent:
  "find_image_type ext = Inl e \<Longrightarrow> Image_adopted dev h ext fmt iu w = (Inl e, w)"
  by (simp add: Image_adopted_def)

section \<open>Facts about map, unmap, destruction and move\<close>

lemma Image_map_again:
  "mapped_data im \<noteq> nullptr \<Longrightarrow> Image_map im w = (Inr (mapped_data im, im), w)"
  by (simp add: Image_map_def VK_CHECK_def)

lemma Image_map_first:
  assumes "mapped_data im = nullptr"
    and "vmaMapMemory (get_memory_allocator (device im))
           (calls (if tiling im \<noteq> VK_IMAGE_TILING_LINEAR
                   then emit (Warning ''Mapping image memory that is not linear'') w else w))
           (memory im) = (VK_SUCCESS, p)"
  shows "Image_map im w =
           (Inr (p, im\<lparr>mapped_data := p, mapped := True\<rparr>),
            emit (MapMemory (memory im))
              (if tiling im \<noteq> VK_IMAGE_TILING_LINEAR
               then emit (Warning ''Mapping image memory that is not linear'') w else w))"
  using assms by (simp add: Image_map_def VK_CHECK_def Let_def)

lemma map_n_again:
  "mapped_data im \<noteq> nullptr \<Longrightarrow> map_n n im w = (Inr (replicate n (mapped_data im), im), w)"
  by (induction n) (simp_all add: Image_map_again)

lemma map_n_first:
  assumes "mapped_data im = nullptr"
    and "vmaMapMemory (get_memory_allocator (device im))
           (calls (if tiling im \<noteq> VK_IMAGE_TILING_LINEAR
                   then emit (Warning ''Mapping image memory that is not linear'') w else w))
           (memory im) = (VK_SUCCESS, p)"
    and "p \<noteq> nullptr"
  shows "map_n (Suc n) im w =
           (Inr (replicate (Suc n) p, im\<lparr>mapped_data := p, mapped := True\<rparr>),
            emit (MapMemory (memory im))
              (if tiling im \<noteq> VK_IMAGE_TILING_LINEAR
               then emit (Warning ''Mapping image memory that is not linear'') w else w))"
proof -
  let ?im = "im\<lparr>mapped_data := p, mapped := True\<rparr>"
  have "mapped_data ?im \<noteq> nullptr" using assms(3) by simp
  then have "map_n n ?im w' = (Inr (replicate n p, ?im), w')" for w'
    using map_n_again [of ?im n w'] by simp
  then show ?thesis
    using Image_map_first [OF assms(1,2)] by simp
qed

lemma count_MapMemory_first:
  "length (filter is_MapMemory (calls (emit (MapMemory m)
      (if c then emit (Warning s) w else w))))
   = Suc (length (filter is_MapMemory (calls w)))"
  by (simp add: emit_def)

lemma Image_unmap_mapped:
  "mapped im \<Longrightarrow>
   Image_unmap im w = (im\<lparr>mapped_data := nullptr, mapped := False\<rparr>, emit (UnmapMemory (memory im)) w)"
  by (simp add: Image_unmap_def)

lemma Image_unmap_not_mapped: "\<not> mapped im \<Longrightarrow> Image_unmap im w = (im, w)"
  by (simp add: Image_unmap_def)

lemma Image_destructor_calls:
  "calls (snd (Image_destructor im w)) = calls w @
     (if handle im = VK_NULL_HANDLE \<or> memory im = VK_NULL_HANDLE then []
      else (if mapped im then [UnmapMemory (memory im)] else []) @
           [DestroyImage (handle im) (memory im)])"
  by (simp add: Image_destructor_def Image_unmap_def emit_def)

lemma Image_move_new:
  "Image_move a other w = (new, old, w') \<Longrightarrow>
   device new = device other \<and> handle new = handle other \<and> memory new = memory other \<and>
   type new = type other \<and> extent new = extent other \<and> format new = format other \<and>
   sample_count new = sample_count other \<and> usage new = usage other \<and>
   tiling new = tiling other \<and> subresource new = subresource other \<and>
   mapped_data new = mapped_data other \<and> mapped new = mapped other \<and> views new = []"
  by (auto simp: Image_move_def Let_def Image_members_def)

lemma Image_move_old:
  "Image_move a other w = (new, old, w') \<Longrightarrow>
   old = other\<lparr>handle := VK_NULL_HANDLE, memory := VK_NULL_HANDLE,
                mapped_data := nullptr, mapped := False\<rparr>"
  by (auto simp: Image_move_def Let_def)

lemma Image_move_world: "Image_move a other w = (new, old, w') \<Longrightarrow> w' = w"
  by (auto simp: Image_move_def Let_def Image_members_def)

section \<open>Facts about sequences of operations\<close>

lemma S3: "S3_state = (Inr S3_image, world0)"
  by (simp add: S3_state_def S3_image_def Image_adopted_def find_image_type_def Let_def Image_members_def)

lemma S3_map: "run [Map] (S3_image, world0) =
   Inr (S3_image\<lparr>mapped_data := 4096, mapped := True\<rparr>,
        emit (MapMemory VK_NULL_HANDLE) (emit (Warning ''Mapping image memory that is not linear'') world0))"
  by (simp add: S3_image_def Image_map_def VK_CHECK_def Let_def lenient_device_def lenient_allocator_def
      nullptr_def VK_IMAGE_TILING_LINEAR_def VK_IMAGE_TILING_OPTIMAL_def VK_SUCCESS_def)

lemma S6_views: "views (fst S6_state) = [1, 2] \<and> view_image (snd S6_state) 1 = 100
   \<and> view_image (snd S6_state) 2 = 100 \<and> handle (fst S6_state) = 7 \<and> memory (fst S6_state) = 9"
  by (simp add: S6_state_def Image_owning_def find_image_type_def extent_2d_def Let_def
      Image_members_def strict_device_def strict_allocator_def VK_SUCCESS_def register_view_def emit_def)

lemma exec_inv4:
  assumes "refuses_null_map (device im)" "inv4 im" "exec x (im, w) = Inr (im', w')"
  shows "device im' = device im \<and> inv4 im'"
proof (cases x)
  case Map
  show ?thesis
  proof (cases "mapped_data im = nullptr")
    case True
    with assms Map show ?thesis
      apply (auto simp: Image_map_def VK_CHECK_def Let_def inv4_def refuses_null_map_def split: prod.splits if_splits)
      by (metis fst_conv)+
  next
    case False
    with assms Map show ?thesis by (simp add: Image_map_again)
  qed
next
  case Unmap
  with assms show ?thesis by (auto simp: Image_unmap_def inv4_def split: if_splits)
next
  case (Move_to a)
  with assms show ?thesis by (auto simp: inv4_def split: prod.splits dest: Image_move_new)
next
  case (Moved_from a)
  with assms show ?thesis by (auto simp: inv4_def split: prod.splits dest: Image_move_old)
next
  case Destroy
  with assms show ?thesis
    by (auto simp: Image_destructor_def Image_unmap_def inv4_def Let_def split: if_splits)
qed

lemma run_inv4:
  "refuses_null_map (device im) \<Longrightarrow> inv4 im \<Longrightarrow> run ops (im, w) = Inr (im', w') \<Longrightarrow>
   device im' = device im \<and> inv4 im'"
proof (induction ops arbitrary: im w)
  case Nil
  then show ?case by simp
next
  case (Cons x xs)
  from Cons.prems(3) obtain im1 w1 where e: "exec x (im, w) = Inr (im1, w1)"
    and r: "run xs (im1, w1) = Inr (im', w')"
    by (auto split: sum.splits)
  from exec_inv4 [OF Cons.prems(1,2) e] have d: "device im1 = device im" and i: "inv4 im1" by simp_all
  from Cons.IH [of im1 w1] Cons.prems(1) d i r show ?case by simp
qed

lemma Image_owning_fresh:
  "Image_owning dev ext fmt iu mu sc mips layers til w = (Inr im, w') \<Longrightarrow>
   device im = dev \<and> \<not> mapped im \<and> mapped_data im = nullptr \<and> views im = []"
  by (auto simp: Image_owning_def Let_def Image_members_def split: sum.splits if_splits prod.splits)

lemma Image_owning_pair:
  "Image_owning dev ext fmt iu mu sc mips layers til w = (Inr im, w') \<Longrightarrow>
   \<exists>image_info memory_info.
     vmaCreateImage (get_memory_allocator dev) (calls w) image_info memory_info
       = (VK_SUCCESS, handle im, memory im)
     \<and> calls w' = calls w @ [CreateImage image_info memory_info]"
  by (auto simp: Image_owning_def Let_def Image_members_def emit_def
      split: sum.splits if_splits prod.splits)

lemma exec_keeps_pair:
  assumes "exec x (im, w) = Inr (im', w')" "\<forall>a. x \<noteq> Moved_from a"
  shows "handle im' = handle im \<and> memory im' = memory im"
proof (cases x)
  case Map
  with assms show ?thesis
    by (auto simp: Image_map_def VK_CHECK_def Let_def split: prod.splits if_splits)
next
  case Unmap
  with assms show ?thesis by (auto simp: Image_unmap_def split: if_splits)
next
  case (Move_to a)
  with assms show ?thesis by (auto split: prod.splits dest: Image_move_new)
next
  case (Moved_from a)
  with assms show ?thesis by simp
next
  case Destroy
  with assms show ?thesis
    by (auto simp: Image_destructor_def Image_unmap_def Let_def split: if_splits)
qed

lemma run_keeps_pair:
  "run ops (im, w) = Inr (im', w') \<Longrightarrow> \<forall>a. Moved_from a \<notin> set ops \<Longrightarrow>
   handle im' = handle im \<and> memory im' = memory im"
proof (induction ops arbitrary: im w)
  case Nil
  then show ?case by simp
next
  case (Cons x xs)
  from Cons.prems(1) obtain im1 w1 where e: "exec x (im, w) = Inr (im1, w1)"
    and r: "run xs (im1, w1) = Inr (im', w')"
    by (auto split: sum.splits)
  from Cons.prems(2) have nx: "\<forall>a. x \<noteq> Moved_from a" and nxs: "\<forall>a. Moved_from a \<notin> set xs"
    by auto
  from exec_keeps_pair [OF e nx] Cons.IH [OF r nxs] show ?case by simp
qed

lemma exec_borrowed:
  assumes "memory im = VK_NULL_HANDLE" "exec x (im, w) = Inr (im', w')"
  shows "memory im' = VK_NULL_HANDLE \<and>
         filter is_alloc_or_release (calls w') = filter is_alloc_or_release (calls w)"
proof (cases x)
  case Map
  with assms show ?thesis
    by (auto simp: Image_map_def VK_CHECK_def Let_def emit_def is_alloc_or_release_def split: prod.splits if_splits)
next
  case Unmap
  with assms show ?thesis
    by (auto simp: Image_unmap_def emit_def is_alloc_or_release_def split: if_splits)
next
  case (Move_to a)
  with assms show ?thesis
    by (auto split: prod.splits dest: Image_move_new Image_move_world)
next
  case (Moved_from a)
  with assms show ?thesis 
    by (auto split: prod.splits dest: Image_move_old Image_move_world)
next
  case Destroy
  with assms show ?thesis
    by (auto simp: Image_destructor_def)
qed

lemma run_borrowed:
  "memory im = VK_NULL_HANDLE \<Longrightarrow> run ops (im, w) = Inr (im', w') \<Longrightarrow>
   memory im' = VK_NULL_HANDLE \<and>
   filter is_alloc_or_release (calls w') = filter is_alloc_or_release (calls w)"
proof (induction ops arbitrary: im w)
  case Nil
  then show ?case by simp
next
  case (Cons x xs)
  from Cons.prems(2) obtain im1 w1 where e: "exec x (im, w) = Inr (im1, w1)"
    and r: "run xs (im1, w1) = Inr (im', w')"
    by (auto split: sum.splits)
  from exec_borrowed [OF Cons.prems(1) e] Cons.IH [of im1 w1] r show ?case by simp
qed

section \<open>Failures of owning construction, the allocation request, and adoption\<close>



text \<open>
  C8. When owning construction reaches the allocator, the memory info it passes to
  \<open>vmaCreateImage\<close> has the lazily-allocated bit in its preferred flags exactly when
  the requested usage has the transient-attachment bit; for every other usage the
  preferred flags are empty.
\<close>

theorem Image_owning_lazy_preference:
  "find_image_type ext = Inr ty \<and> 0 < mips \<and> 0 < layers \<longrightarrow>
   (\<exists>image_info memory_info.
      calls (snd (Image_owning dev ext fmt iu mu sc mips layers til w))
        = calls w @ [CreateImage image_info memory_info]
      \<and> mem_usage memory_info = mu
      \<and> (preferredFlags memory_info AND VK_MEMORY_PROPERTY_LAZILY_ALLOCATED_BIT \<noteq> 0
           \<longleftrightarrow> iu AND VK_IMAGE_USAGE_TRANSIENT_ATTACHMENT_BIT \<noteq> 0)
      \<and> (iu AND VK_IMAGE_USAGE_TRANSIENT_ATTACHMENT_BIT = 0 \<longrightarrow> preferredFlags memory_info = 0))"
  using Image_owning_calls [of ext ty mips layers dev fmt iu mu sc til w]
    memory_info_lazy_iff [of iu mu] memory_info_not_transient [of iu mu] memory_info_usage [of iu mu]
  by blast

theorem Image_owning_lazy_preference_witness:
  "find_image_type extent_2d = Inr VK_IMAGE_TYPE_2D \<and> (0 :: 32 word) < 1
   \<and> (0x50 :: 32 word) AND VK_IMAGE_USAGE_TRANSIENT_ATTACHMENT_BIT \<noteq> 0
   \<and> (0x10 :: 32 word) AND VK_IMAGE_USAGE_TRANSIENT_ATTACHMENT_BIT = 0
   \<and> (\<exists>image_info memory_info.
        calls (snd (Image_owning strict_device extent_2d 37 0x50 1 1 1 1 0 world0))
          = calls world0 @ [CreateImage image_info memory_info]
        \<and> preferredFlags memory_info AND VK_MEMORY_PROPERTY_LAZILY_ALLOCATED_BIT \<noteq> 0)
   \<and> (\<exists>image_info memory_info.
        calls (snd (Image_owning strict_device extent_2d 37 0x10 1 1 1 1 0 world0))
          = calls world0 @ [CreateImage image_info memory_info]
        \<and> preferredFlags memory_info = 0)"
proof -
  have e2: "find_image_type extent_2d = Inr VK_IMAGE_TYPE_2D"
    by (simp add: find_image_type_def extent_2d_def Let_def)
  have p: "(0 :: 32 word) < 1" by simp
  have t: "(0x50 :: 32 word) AND VK_IMAGE_USAGE_TRANSIENT_ATTACHMENT_BIT \<noteq> 0"
    by (simp add: VK_IMAGE_USAGE_TRANSIENT_ATTACHMENT_BIT_def)
  have n: "(0x10 :: 32 word) AND VK_IMAGE_USAGE_TRANSIENT_ATTACHMENT_BIT = 0"
    by (simp add: VK_IMAGE_USAGE_TRANSIENT_ATTACHMENT_BIT_def)
  show ?thesis
    using e2 p t n
      Image_owning_lazy_preference [of extent_2d VK_IMAGE_TYPE_2D 1 1 strict_device 37 "0x50" 1 1 0 world0]
      Image_owning_lazy_preference [of extent_2d VK_IMAGE_TYPE_2D 1 1 strict_device 37 "0x10" 1 1 0 world0]
    by blast
qed

text \<open>
  C9. Adopting construction changes nothing outside the object, so it calls no
  \<open>vmaCreateImage\<close>; the image it yields has the given handle, the null allocation,
  a single sample and the subresource (1,1); the destructor of that image makes no
  call; and whatever is then done with the image, the allocation stays null and no
  \<open>vmaCreateImage\<close> or \<open>vmaDestroyImage\<close> is added to the calls.
\<close>

theorem Image_adopted_borrowed:
  "snd (Image_adopted dev h ext fmt iu w) = w
   \<and> (fst (Image_adopted dev h ext fmt iu w) = Inr im \<longrightarrow>
        handle im = h \<and> memory im = VK_NULL_HANDLE
        \<and> sample_count im = VK_SAMPLE_COUNT_1_BIT
        \<and> mipLevel (subresource im) = 1 \<and> arrayLayer (subresource im) = 1
        \<and> Image_destructor im w1 = (im, w1)
        \<and> (run ops (im, w1) = Inr (im', w2) \<longrightarrow>
             memory im' = VK_NULL_HANDLE
             \<and> filter is_alloc_or_release (calls w2) = filter is_alloc_or_release (calls w1)
             \<and> Image_destructor im' w2 = (im', w2)))"
proof -
  have a: "snd (Image_adopted dev h ext fmt iu w) = w"
    by (rule Image_adopted_world)
  have b: "handle im = h \<and> memory im = VK_NULL_HANDLE
        \<and> sample_count im = VK_SAMPLE_COUNT_1_BIT
        \<and> mipLevel (subresource im) = 1 \<and> arrayLayer (subresource im) = 1"
    if "fst (Image_adopted dev h ext fmt iu w) = Inr im"
    using that Image_adopted_fields [of dev h ext fmt iu w im w] a
    by (metis prod.collapse)
  have c: "Image_destructor x v = (x, v)" if "memory x = VK_NULL_HANDLE" for x v
    using that by (simp add: Image_destructor_null)
  have d: "memory im' = VK_NULL_HANDLE
             \<and> filter is_alloc_or_release (calls w2) = filter is_alloc_or_release (calls w1)"
    if "memory im = VK_NULL_HANDLE" "run ops (im, w1) = Inr (im', w2)"
    using that by (rule run_borrowed)
  show ?thesis using a b c d by blast
qed

theorem Image_adopted_borrowed_witness:
  "fst S3_state = Inr S3_image
   \<and> run [Map, Unmap, Move_to 200, Destroy] (S3_image, world0)
       = Inr (S3_image\<lparr>mapped_data := nullptr, mapped := False\<rparr>,
              emit (UnmapMemory VK_NULL_HANDLE) (emit (MapMemory VK_NULL_HANDLE)
                (emit (Warning ''Mapping image memory that is not linear'') world0)))
   \<and> handle S3_image = 5 \<and> memory S3_image = VK_NULL_HANDLE
   \<and> Image_destructor S3_image world0 = (S3_image, world0)
   \<and> filter is_alloc_or_release (calls (emit (UnmapMemory VK_NULL_HANDLE)
        (emit (MapMemory VK_NULL_HANDLE)
          (emit (Warning ''Mapping image memory that is not linear'') world0))))
       = filter is_alloc_or_release (calls world0)"
proof -
  have a: "fst (Image_adopted lenient_device 5 \<lparr>width = 1920, height = 1080, depth = 1\<rparr> 44 0x10 world0)
             = Inr S3_image"
    using S3 by (simp add: S3_state_def)
  have b: "run [Map, Unmap, Move_to 200, Destroy] (S3_image, world0)
       = Inr (S3_image\<lparr>mapped_data := nullptr, mapped := False\<rparr>,
              emit (UnmapMemory VK_NULL_HANDLE) (emit (MapMemory VK_NULL_HANDLE)
                (emit (Warning ''Mapping image memory that is not linear'') world0)))"
    by (simp add: S3_image_def Image_map_def VK_CHECK_def Image_unmap_def Image_move_def Image_destructor_def
        Image_members_def Let_def lenient_device_def lenient_allocator_def
        nullptr_def VK_IMAGE_TILING_LINEAR_def VK_IMAGE_TILING_OPTIMAL_def VK_SUCCESS_def
        VK_NULL_HANDLE_def)
  show ?thesis
    using a b
      Image_adopted_borrowed [of lenient_device 5 "\<lparr>width = 1920, height = 1080, depth = 1\<rparr>"
        44 "0x10" world0 S3_image world0 "[Map, Unmap, Move_to 200, Destroy]"
        "S3_image\<lparr>mapped_data := nullptr, mapped := False\<rparr>"
        "emit (UnmapMemory VK_NULL_HANDLE) (emit (MapMemory VK_NULL_HANDLE)
                (emit (Warning ''Mapping image memory that is not linear'') world0))"]
    by (simp add: S3_state_def)
qed

text \<open>
  C10. Adopting construction applies the type inference to its extent: an extent whose
  count of present dimensions is not 1, 2 or 3, such as (0,0,0), makes it fail with the
  same error as owning construction, with nothing called; for any other extent the
  adopted image has the inferred type.
\<close>

theorem Image_adopted_type:
  "(present_dims ext \<noteq> 1 \<and> present_dims ext \<noteq> 2 \<and> present_dims ext \<noteq> 3 \<longrightarrow>
      Image_adopted dev h ext fmt iu w = (Inl (runtime_error ''No image type found.''), w)
      \<and> Image_owning dev ext fmt iu mu sc mips layers til w
          = (Inl (runtime_error ''No image type found.''), w))
   \<and> (find_image_type ext = Inr ty \<longrightarrow>
        (\<exists>im. Image_adopted dev h ext fmt iu w = (Inr im, w) \<and> type im = ty))
   \<and> Image_adopted dev h \<lparr>width = 0, height = 0, depth = 0\<rparr> fmt iu w
        = (Inl (runtime_error ''No image type found.''), w)"
proof -
  have a: "find_image_type ext = Inl (runtime_error ''No image type found.'')"
    if "present_dims ext \<noteq> 1 \<and> present_dims ext \<noteq> 2 \<and> present_dims ext \<noteq> 3"
    using that by (simp add: find_image_type_Inl)
  have z: "find_image_type \<lparr>width = 0, height = 0, depth = 0\<rparr>
             = Inl (runtime_error ''No image type found.'')"
    by (rule find_image_type_zero)
  show ?thesis
    using a Image_adopted_bad_extent [of ext "runtime_error ''No image type found.'' " dev h fmt iu w]
      Image_owning_bad_extent [of ext "runtime_error ''No image type found.''" dev fmt iu mu sc mips layers til w]
      adopted_type_inferred [of ext ty dev h fmt iu w]
      Image_adopted_bad_extent [OF z, of dev h fmt iu w]
    by blast
qed

theorem Image_adopted_type_witness:
  "present_dims extent_0 \<noteq> 1 \<and> present_dims extent_0 \<noteq> 2 \<and> present_dims extent_0 \<noteq> 3
   \<and> Image_adopted strict_device 5 extent_0 44 0x10 world0
        = (Inl (runtime_error ''No image type found.''), world0)
   \<and> Image_owning strict_device extent_0 44 0x10 1 1 1 1 0 world0
        = (Inl (runtime_error ''No image type found.''), world0)
   \<and> find_image_type extent_2d = Inr VK_IMAGE_TYPE_2D
   \<and> (\<exists>im. Image_adopted strict_device 5 extent_2d 44 0x10 world0 = (Inr im, world0)
             \<and> type im = VK_IMAGE_TYPE_2D)"
proof -
  have e0: "present_dims extent_0 \<noteq> 1 \<and> present_dims extent_0 \<noteq> 2 \<and> present_dims extent_0 \<noteq> 3"
    by (simp add: present_dims_def extent_0_def)
  have e2: "find_image_type extent_2d = Inr VK_IMAGE_TYPE_2D"
    by (simp add: find_image_type_def extent_2d_def Let_def)
  show ?thesis
    using e0 e2
      Image_adopted_type [of extent_0 strict_device 5 44 "0x10" world0 1 1 1 1 0]
      Image_adopted_type [of extent_2d strict_device 5 44 "0x10" world0 1 1 1 1 0 VK_IMAGE_TYPE_2D]
    by blast
qed

section \<open>The mapped invariant and destruction\<close>

text \<open>
  C2, as stated, fails: \<open>map\<close> passes the allocation to the allocator without looking
  at it, so with an allocator that reports success for the null allocation the adopted
  image of scenario S3 becomes mapped while its allocation is null.
\<close>

theorem borrowed_image_mapped:
  "S3_state = (Inr S3_image, world0)
   \<and> run [Map] (S3_image, world0)
       = Inr (S3_image\<lparr>mapped_data := 4096, mapped := True\<rparr>,
              emit (MapMemory VK_NULL_HANDLE)
                (emit (Warning ''Mapping image memory that is not linear'') world0))
   \<and> mapped (S3_image\<lparr>mapped_data := 4096, mapped := True\<rparr>)
   \<and> memory (S3_image\<lparr>mapped_data := 4096, mapped := True\<rparr>) = VK_NULL_HANDLE
   \<and> \<not> inv4 (S3_image\<lparr>mapped_data := 4096, mapped := True\<rparr>)"
  using S3 S3_map by (simp add: inv4_def S3_image_def)

text \<open>
  C2, amended. If the allocator of the device never reports success for a request to
  map the null allocation, then in every state reached from an owning or an adopting
  construction by any sequence of map, unmap, move (followed on either side) and
  destruction, a mapped image has a non-null allocation.
\<close>

theorem mapped_implies_allocation:
  assumes "refuses_null_map dev"
    and "fst (Image_owning dev ext fmt iu mu sc mips layers til w0) = Inr im0
         \<or> fst (Image_adopted dev h ext fmt iu w0) = Inr im0"
    and "run ops (im0, w1) = Inr (im, w2)"
  shows "mapped im \<longrightarrow> memory im \<noteq> VK_NULL_HANDLE"
proof -
  have "device im0 = dev \<and> \<not> mapped im0"
    using assms(2)
  proof
    assume "fst (Image_owning dev ext fmt iu mu sc mips layers til w0) = Inr im0"
    then have "Image_owning dev ext fmt iu mu sc mips layers til w0
                 = (Inr im0, snd (Image_owning dev ext fmt iu mu sc mips layers til w0))"
      by (metis prod.collapse)
    then show ?thesis using Image_owning_fresh by blast
  next
    assume "fst (Image_adopted dev h ext fmt iu w0) = Inr im0"
    then have "Image_adopted dev h ext fmt iu w0
                 = (Inr im0, snd (Image_adopted dev h ext fmt iu w0))"
      by (metis prod.collapse)
    then show ?thesis using Image_adopted_fields by blast
  qed
  then have d: "refuses_null_map (device im0)" and i: "inv4 im0"
    using assms(1) by (simp_all add: inv4_def)
  from run_inv4 [OF d i assms(3)] show ?thesis by (simp add: inv4_def)
qed

theorem mapped_implies_allocation_witness:
  "refuses_null_map strict_device
   \<and> fst (Image_owning strict_device extent_2d 37 0x10 1 1 1 1 VK_IMAGE_TILING_OPTIMAL world0)
       = Inr S1_image
   \<and> run [Map, Move_to 200] (S1_image, world0)
       = Inr (S1_image\<lparr>mapped_data := 4096, mapped := True\<rparr>,
              emit (MapMemory 9) (emit (Warning ''Mapping image memory that is not linear'') world0))
   \<and> mapped (S1_image\<lparr>mapped_data := 4096, mapped := True\<rparr>)
   \<and> memory (S1_image\<lparr>mapped_data := 4096, mapped := True\<rparr>) \<noteq> VK_NULL_HANDLE"
proof -
  have a: "refuses_null_map strict_device"
    by (simp add: refuses_null_map_def strict_device_def strict_allocator_def VK_SUCCESS_def)
  have b: "fst (Image_owning strict_device extent_2d 37 0x10 1 1 1 1 VK_IMAGE_TILING_OPTIMAL world0)
       = Inr S1_image"
    by (simp add: Image_owning_def find_image_type_def extent_2d_def Let_def Image_members_def
        strict_device_def strict_allocator_def VK_SUCCESS_def S1_image_def nullptr_def)
  then have b': "fst (Image_owning strict_device extent_2d 37 0x10 1 1 1 1 VK_IMAGE_TILING_OPTIMAL world0)
       = Inr S1_image \<or> fst (Image_adopted strict_device 0 extent_2d 37 0x10 world0) = Inr S1_image"
    by simp
  have c: "run [Map, Move_to 200] (S1_image, world0)
       = Inr (S1_image\<lparr>mapped_data := 4096, mapped := True\<rparr>,
              emit (MapMemory 9) (emit (Warning ''Mapping image memory that is not linear'') world0))"
    by (simp add: S1_image_def Image_map_def VK_CHECK_def Image_move_def Image_members_def Let_def
        strict_device_def strict_allocator_def nullptr_def VK_IMAGE_TILING_LINEAR_def
        VK_IMAGE_TILING_OPTIMAL_def VK_SUCCESS_def VK_NULL_HANDLE_def)
  have m: "mapped (S1_image\<lparr>mapped_data := 4096, mapped := True\<rparr>)" by simp
  from mapped_implies_allocation [OF a b' c] a b c m show ?thesis by simp
qed

text \<open>
  C3. The destructor adds no call when the handle or the allocation is null. Otherwise
  it adds \<open>vmaUnmapMemory\<close> if the image is mapped, and then exactly one
  \<open>vmaDestroyImage\<close> with the handle and the allocation of the image, the unmapping
  first. Handle and allocation are the pair the allocator returned at construction:
  no operation on the object itself changes them.
\<close>

theorem Image_destructor_release:
  "calls (snd (Image_destructor im w)) = calls w @
     (if handle im = VK_NULL_HANDLE \<or> memory im = VK_NULL_HANDLE then []
      else (if mapped im then [UnmapMemory (memory im)] else []) @
           [DestroyImage (handle im) (memory im)])
   \<and> (fst (Image_owning dev ext fmt iu mu sc mips layers til w0) = Inr im0
        \<and> run ops (im0, w1) = Inr (im, w) \<and> (\<forall>a. Moved_from a \<notin> set ops) \<longrightarrow>
        handle im = handle im0 \<and> memory im = memory im0
        \<and> (\<exists>image_info memory_info.
              vmaCreateImage (get_memory_allocator dev) (calls w0) image_info memory_info
                = (VK_SUCCESS, handle im, memory im)))"
proof -
  have p: "\<exists>image_info memory_info.
              vmaCreateImage (get_memory_allocator dev) (calls w0) image_info memory_info
                = (VK_SUCCESS, handle im0, memory im0)"
    if "fst (Image_owning dev ext fmt iu mu sc mips layers til w0) = Inr im0"
  proof -
    from that have "Image_owning dev ext fmt iu mu sc mips layers til w0
                 = (Inr im0, snd (Image_owning dev ext fmt iu mu sc mips layers til w0))"
      by (metis prod.collapse)
    from Image_owning_pair [OF this] show ?thesis by blast
  qed
  have k: "handle im = handle im0 \<and> memory im = memory im0"
    if "run ops (im0, w1) = Inr (im, w)" "\<forall>a. Moved_from a \<notin> set ops"
    using that by (rule run_keeps_pair)
  show ?thesis
    using Image_destructor_calls [of im w] p k by simp
qed

theorem Image_destructor_release_witness:
  "fst (Image_owning strict_device extent_2d 37 0x10 1 1 1 1 VK_IMAGE_TILING_OPTIMAL world0)
       = Inr S1_image
   \<and> run [Map, Move_to 200] (S1_image, world0)
       = Inr (S1_image\<lparr>mapped_data := 4096, mapped := True\<rparr>,
              emit (MapMemory 9) (emit (Warning ''Mapping image memory that is not linear'') world0))
   \<and> (\<forall>a. Moved_from a \<notin> set [Map, Move_to 200])
   \<and> handle (S1_image\<lparr>mapped_data := 4096, mapped := True\<rparr>) = 7
   \<and> memory (S1_image\<lparr>mapped_data := 4096, mapped := True\<rparr>) = 9
   \<and> calls (snd (Image_destructor (S1_image\<lparr>mapped_data := 4096, mapped := True\<rparr>)
        (emit (MapMemory 9) (emit (Warning ''Mapping image memory that is not linear'') world0))))
      = [Warning ''Mapping image memory that is not linear'', MapMemory 9,
         UnmapMemory 9, DestroyImage 7 9]"
proof -
  have b: "fst (Image_owning strict_device extent_2d 37 0x10 1 1 1 1 VK_IMAGE_TILING_OPTIMAL world0)
       = Inr S1_image"
    by (simp add: Image_owning_def find_image_type_def extent_2d_def Let_def Image_members_def
        strict_device_def strict_allocator_def VK_SUCCESS_def S1_image_def nullptr_def)
  have c: "run [Map, Move_to 200] (S1_image, world0)
       = Inr (S1_image\<lparr>mapped_data := 4096, mapped := True\<rparr>,
              emit (MapMemory 9) (emit (Warning ''Mapping image memory that is not linear'') world0))"
    by (simp add: S1_image_def Image_map_def VK_CHECK_def Image_move_def Image_members_def Let_def
        strict_device_def strict_allocator_def nullptr_def VK_IMAGE_TILING_LINEAR_def
        VK_IMAGE_TILING_OPTIMAL_def VK_SUCCESS_def VK_NULL_HANDLE_def)
  have n: "\<forall>a. Moved_from a \<notin> set [Map, Move_to 200]" by simp
  have v: "handle S1_image = 7 \<and> memory S1_image = 9 \<and> VK_NULL_HANDLE = 0"
    by (simp add: S1_image_def VK_NULL_HANDLE_def)
  show ?thesis
    using b c n v
      Image_destructor_release [of "S1_image\<lparr>mapped_data := 4096, mapped := True\<rparr>"
        "emit (MapMemory 9) (emit (Warning ''Mapping image memory that is not linear'') world0)"
        strict_device extent_2d 37 "0x10" 1 1 1 1 VK_IMAGE_TILING_OPTIMAL world0 S1_image
        "[Map, Move_to 200]" world0]
    by (simp add: emit_def world0_def)
qed

section \<open>Idempotent mapping, and the move constructor\<close>

text \<open>
  C6, as stated, fails: \<open>map\<close> decides on the mapped pointer alone, so when the
  allocator answers success with a null pointer the pointer stays null and the next
  \<open>map\<close> asks the allocator again. On the owning image of scenario S1 two calls in a
  row then make two \<open>vmaMapMemory\<close> calls.
\<close>

theorem map_null_pointer_reenters:
  "fst (Image_owning null_pointer_device extent_2d 37 0x10 1 1 1 1 VK_IMAGE_TILING_OPTIMAL world0)
     = Inr S1_null_image
   \<and> map_n 2 S1_null_image world0
       = (Inr ([nullptr, nullptr], S1_null_image\<lparr>mapped := True\<rparr>),
          emit (MapMemory 9) (emit (Warning ''Mapping image memory that is not linear'')
            (emit (MapMemory 9) (emit (Warning ''Mapping image memory that is not linear'')
              world0))))
   \<and> filter is_MapMemory (calls (snd (map_n 2 S1_null_image world0)))
       = [MapMemory 9, MapMemory 9]"
proof -
  have a: "fst (Image_owning null_pointer_device extent_2d 37 0x10 1 1 1 1
                  VK_IMAGE_TILING_OPTIMAL world0) = Inr S1_null_image"
    by (simp add: Image_owning_def find_image_type_def extent_2d_def Let_def Image_members_def
        null_pointer_device_def null_pointer_allocator_def VK_SUCCESS_def S1_null_image_def)
  have m: "Image_map (S1_null_image\<lparr>mapped := b\<rparr>) w
             = (Inr (nullptr, S1_null_image\<lparr>mapped := True\<rparr>),
                emit (MapMemory 9) (emit (Warning ''Mapping image memory that is not linear'') w))"
    for b w
    by (simp add: Image_map_def VK_CHECK_def Let_def S1_null_image_def null_pointer_device_def
        null_pointer_allocator_def VK_IMAGE_TILING_LINEAR_def VK_IMAGE_TILING_OPTIMAL_def)
  have s: "S1_null_image = S1_null_image\<lparr>mapped := False\<rparr>"
    by (simp add: S1_null_image_def)
  have two: "map_n 2 S1_null_image world0
       = (Inr ([nullptr, nullptr], S1_null_image\<lparr>mapped := True\<rparr>),
          emit (MapMemory 9) (emit (Warning ''Mapping image memory that is not linear'')
            (emit (MapMemory 9) (emit (Warning ''Mapping image memory that is not linear'')
              world0))))"
    using m [of False world0] m [of True] s by (simp add: numeral_2_eq_2)
  show ?thesis using a two by (simp add: emit_def world0_def)
qed

text \<open>
  C6, amended. \<open>map\<close> is idempotent, decided by the mapped pointer. On an image whose
  mapped pointer is null, when the allocator answers the mapping request with success
  and a pointer \<open>p\<close> that is not null, any number \<open>n + 1\<close> of calls in a row all
  return \<open>p\<close> and add exactly one \<open>vmaMapMemory\<close> to the calls; one \<open>unmap\<close>
  afterwards undoes the mapping and clears the pointer, so that the next \<open>map\<close> asks
  the allocator again. On an image whose mapped pointer is not null, \<open>map\<close> returns
  that pointer and changes nothing, however often it is called.
\<close>

theorem Image_map_idempotent:
  "(mapped_data im = nullptr
    \<and> vmaMapMemory (get_memory_allocator (device im))
         (calls (if tiling im \<noteq> VK_IMAGE_TILING_LINEAR
                 then emit (Warning ''Mapping image memory that is not linear'') w else w))
         (memory im) = (VK_SUCCESS, p)
    \<and> p \<noteq> nullptr \<longrightarrow>
      (\<exists>im' w'. map_n (Suc n) im w = (Inr (replicate (Suc n) p, im'), w')
         \<and> mapped_data im' = p \<and> mapped im'
         \<and> length (filter is_MapMemory (calls w')) = Suc (length (filter is_MapMemory (calls w)))
         \<and> (\<exists>im''. Image_unmap im' w' = (im'', emit (UnmapMemory (memory im)) w')
               \<and> mapped_data im'' = nullptr \<and> \<not> mapped im'')))
   \<and> (mapped_data im \<noteq> nullptr \<longrightarrow>
        Image_map im w = (Inr (mapped_data im, im), w)
        \<and> map_n n im w = (Inr (replicate n (mapped_data im), im), w))"
proof -
  let ?w1 = "if tiling im \<noteq> VK_IMAGE_TILING_LINEAR
             then emit (Warning ''Mapping image memory that is not linear'') w else w"
  let ?im = "im\<lparr>mapped_data := p, mapped := True\<rparr>"
  have first: "\<exists>im' w'. map_n (Suc n) im w = (Inr (replicate (Suc n) p, im'), w')
         \<and> mapped_data im' = p \<and> mapped im'
         \<and> length (filter is_MapMemory (calls w')) = Suc (length (filter is_MapMemory (calls w)))
         \<and> (\<exists>im''. Image_unmap im' w' = (im'', emit (UnmapMemory (memory im)) w')
               \<and> mapped_data im'' = nullptr \<and> \<not> mapped im'')"
    if h: "mapped_data im = nullptr"
      "vmaMapMemory (get_memory_allocator (device im)) (calls ?w1) (memory im) = (VK_SUCCESS, p)"
      "p \<noteq> nullptr"
  proof -
    have m: "map_n (Suc n) im w = (Inr (replicate (Suc n) p, ?im), emit (MapMemory (memory im)) ?w1)"
      using h by (rule map_n_first)
    have c: "length (filter is_MapMemory (calls (emit (MapMemory (memory im)) ?w1)))
               = Suc (length (filter is_MapMemory (calls w)))"
      by (simp add: emit_def)
    have u: "Image_unmap ?im (emit (MapMemory (memory im)) ?w1)
               = (?im\<lparr>mapped_data := nullptr, mapped := False\<rparr>,
                  emit (UnmapMemory (memory im)) (emit (MapMemory (memory im)) ?w1))"
      using Image_unmap_mapped [of ?im "emit (MapMemory (memory im)) ?w1"] by simp
    show ?thesis
      apply (rule exI [of _ ?im])
      apply (rule exI [of _ "emit (MapMemory (memory im)) ?w1"])
      using m c u by simp
  qed
  have again: "Image_map im w = (Inr (mapped_data im, im), w)
        \<and> map_n n im w = (Inr (replicate n (mapped_data im), im), w)"
    if "mapped_data im \<noteq> nullptr"
    using that by (simp add: Image_map_again map_n_again)
  show ?thesis using first again by blast
qed

theorem Image_map_idempotent_witness:
  "mapped_data S1_image = nullptr
   \<and> vmaMapMemory (get_memory_allocator (device S1_image))
       (calls (if tiling S1_image \<noteq> VK_IMAGE_TILING_LINEAR
               then emit (Warning ''Mapping image memory that is not linear'') world0 else world0))
       (memory S1_image) = (VK_SUCCESS, 4096)
   \<and> 4096 \<noteq> nullptr
   \<and> (\<exists>im' w'. map_n 3 S1_image world0 = (Inr ([4096, 4096, 4096], im'), w')
         \<and> length (filter is_MapMemory (calls w')) = 1)
   \<and> mapped_data (S1_image\<lparr>mapped_data := 4096, mapped := True\<rparr>) \<noteq> nullptr
   \<and> map_n 2 (S1_image\<lparr>mapped_data := 4096, mapped := True\<rparr>) world0
       = (Inr ([4096, 4096], S1_image\<lparr>mapped_data := 4096, mapped := True\<rparr>), world0)"
proof -
  have a: "mapped_data S1_image = nullptr" by (simp add: S1_image_def)
  have b: "vmaMapMemory (get_memory_allocator (device S1_image))
       (calls (if tiling S1_image \<noteq> VK_IMAGE_TILING_LINEAR
               then emit (Warning ''Mapping image memory that is not linear'') world0 else world0))
       (memory S1_image) = (VK_SUCCESS, 4096)"
    by (simp add: S1_image_def strict_device_def strict_allocator_def VK_NULL_HANDLE_def)
  have c: "4096 \<noteq> nullptr" by (simp add: nullptr_def)
  have d: "mapped_data (S1_image\<lparr>mapped_data := 4096, mapped := True\<rparr>) \<noteq> nullptr"
    by (simp add: nullptr_def)
  have e: "calls world0 = []" by (simp add: world0_def)
  have n3: "Suc 2 = 3" by simp
  show ?thesis
    using a b c d e
      Image_map_idempotent [of S1_image world0 4096 2]
      Image_map_idempotent [of "S1_image\<lparr>mapped_data := 4096, mapped := True\<rparr>" world0 4096 2]
    by (auto simp: numeral_3_eq_3 numeral_2_eq_2)
qed

text \<open>
  C1 at scenario S6: the image at address 100 has the views 1 and 2 registered, both
  pointing to it. Moving it to address 200 adds no \<open>set_image\<close> call, and both views
  still point to address 100, the object moved from.
\<close>

theorem S6_move_rebinds_no_view:
  "views (fst S6_state) = [1, 2]
   \<and> view_image (snd S6_state) 1 = 100 \<and> view_image (snd S6_state) 2 = 100
   \<and> filter is_SetImage (calls (snd (snd (Image_move 200 (fst S6_state) (snd S6_state))))) = []
   \<and> view_image (snd (snd (Image_move 200 (fst S6_state) (snd S6_state)))) 1 = 100
   \<and> view_image (snd (snd (Image_move 200 (fst S6_state) (snd S6_state)))) 2 = 100"
proof -
  have w: "snd (snd (Image_move 200 (fst S6_state) (snd S6_state))) = snd S6_state"
    using Image_move_world [of 200 "fst S6_state" "snd S6_state"] by (metis prod.collapse)
  have c: "calls (snd S6_state) = [CreateImage
      (image_info_of VK_IMAGE_TYPE_2D 37 extent_2d 1 1 1 VK_IMAGE_TILING_OPTIMAL 0x10)
      (memory_info_of 0x10 1)]"
    by (simp add: S6_state_def Image_owning_def find_image_type_def extent_2d_def Let_def
      Image_members_def strict_device_def strict_allocator_def VK_SUCCESS_def register_view_def
      emit_def world0_def)
  show ?thesis using S6_views w c by simp
qed

text \<open>
  C4 at scenario S6: after the move to address 200 the new object has no view, while
  the object moved from still has the views 1 and 2; the view set is not transferred.
\<close>

theorem S6_move_drops_views:
  "views (fst S6_state) = [1, 2]
   \<and> views (fst (Image_move 200 (fst S6_state) (snd S6_state))) = []
   \<and> views (fst (snd (Image_move 200 (fst S6_state) (snd S6_state)))) = [1, 2]"
proof -
  have n: "views (fst (Image_move 200 (fst S6_state) (snd S6_state))) = []"
    using Image_move_new [of 200 "fst S6_state" "snd S6_state"] by (metis prod.collapse)
  have "fst (snd (Image_move 200 (fst S6_state) (snd S6_state)))
          = (fst S6_state)\<lparr>handle := VK_NULL_HANDLE, memory := VK_NULL_HANDLE,
                mapped_data := nullptr, mapped := False\<rparr>"
    using Image_move_old [of 200 "fst S6_state" "snd S6_state"] by (metis prod.collapse)
  then show ?thesis using S6_views n by simp
qed


end
